theory Spec2Isabelle
  imports Main
begin

section \<open>Values, exceptions and the outside world\<close>

text \<open>
  The program is \<^verbatim>\<open>sonar_git_mcp.py\<close>: five tool operations and an orchestrator, each a
  sequence of calls into the hosting service, the quality server, the file system and
  external commands. The model makes those calls explicit: every call appends an event
  to a trace, and takes its answer from an environment that is fixed for one invocation.
\<close>

text \<open>Python values as the operations return them and as \<^verbatim>\<open>response.json()\<close> decodes
  them (floats are not modelled). A dictionary keeps its insertion order.\<close>

datatype pyval =
    PNone
  | PBool bool
  | PInt int
  | PStr string
  | PList "pyval list"
  | PDict "(string \<times> pyval) list"

text \<open>An instance of Python's \<^verbatim>\<open>Exception\<close>; \<open>str_of e\<close> is \<^verbatim>\<open>str(e)\<close>.\<close>

datatype py_exception = Exception (str_of: string)

text \<open>The object \<^verbatim>\<open>requests.get\<close> returns: what \<^verbatim>\<open>raise_for_status()\<close> raises, if
  anything, and what \<^verbatim>\<open>json()\<close> returns or raises.\<close>

record response =
  raise_for_status :: "py_exception option"
  json :: "py_exception + pyval"

datatype event =
    GetRepo string string
  | GetBranch string
  | PathExists string
  | ReadFile string
  | OpenWrite string
  | WriteFile string string
  | WorkflowRunsTotalCount string
  | WorkflowRunsFirst string
  | HttpGet string "(string \<times> string) list"
  | SubprocessRun "string list" string
  | CreatePull string string string string

text \<open>
  The environment: the configuration read at import, and the answer of every external
  call of one invocation. \<open>None\<close> in an option of exceptions is a call that returns.
  \<^item> \<open>watch_get_repo\<close>, \<open>pr_get_repo\<close>: \<^verbatim>\<open>Github(GITHUB_TOKEN).get_repo(GITHUB_REPO)\<close>
    in \<^verbatim>\<open>watch_github_commit\<close> and in \<^verbatim>\<open>raise_pr\<close>;
  \<^item> \<open>get_branch b\<close>: \<^verbatim>\<open>repo.get_branch(b).commit.sha\<close>;
  \<^item> \<open>read_marker\<close>: opening and reading the marker file when it exists;
  \<^item> \<open>runs_totalCount b\<close>, \<open>runs_first b\<close>: \<^verbatim>\<open>workflows.totalCount\<close> and the
    conclusion of \<^verbatim>\<open>workflows[0]\<close> (\<open>None\<close> for Python's \<^verbatim>\<open>None\<close>);
  \<^item> \<open>open_write\<close>, \<open>flush_write\<close>: opening the marker file for writing, and
    writing and closing it;
  \<^item> \<open>sonar_get\<close>: \<^verbatim>\<open>requests.get(url, params=params, auth=AUTH)\<close>;
  \<^item> \<open>run argv\<close>: \<^verbatim>\<open>subprocess.run(argv, cwd=CLONE_DIR, check=True)\<close>;
  \<^item> \<open>create_pull\<close>: \<^verbatim>\<open>repo.create_pull(...)\<close>, giving \<^verbatim>\<open>pr.html_url\<close>.
\<close>

record env =
  SONARQUBE_URL :: string
  PROJECT_KEY :: string
  GITHUB_TOKEN :: string
  GITHUB_REPO :: string
  watch_get_repo :: "py_exception option"
  get_branch :: "string \<Rightarrow> py_exception + string"
  read_marker :: "py_exception option"
  runs_totalCount :: "string \<Rightarrow> py_exception + int"
  runs_first :: "string \<Rightarrow> py_exception + string option"
  open_write :: "py_exception option"
  flush_write :: "py_exception option"
  sonar_get :: "py_exception + response"
  run :: "string list \<Rightarrow> py_exception option"
  pr_get_repo :: "py_exception option"
  create_pull :: "py_exception + string"

text \<open>The state an invocation changes: the contents of \<^verbatim>\<open>last_commit.txt\<close> (\<open>None\<close>
  when the file is absent) and the trace of external calls made so far.\<close>

record state =
  marker :: "string option"
  trace :: "event list"

definition CLONE_DIR :: string where
  "CLONE_DIR = ''cloned_repo''"

definition NEW_BRANCH :: string where
  "NEW_BRANCH = ''auto-fix-sonar-issues''"

definition sha_file :: string where
  "sha_file = ''last_commit.txt''"

section \<open>Sequencing and the catch-all\<close>

type_synonym 'a action = "state \<Rightarrow> (py_exception + 'a) \<times> state"

definition emit :: "event \<Rightarrow> state \<Rightarrow> state" where
  "emit ev s = s\<lparr>trace := trace s @ [ev]\<rparr>"

definition ret :: "'a \<Rightarrow> 'a action" where
  "ret x s = (Inr x, s)"

text \<open>Statement sequencing: an exception in the first statement skips the rest; what the
  first statement did to the state stays.\<close>

definition seq :: "'a action \<Rightarrow> ('a \<Rightarrow> 'b action) \<Rightarrow> 'b action" where
  "seq m f s = (case m s of (Inl e, s') \<Rightarrow> (Inl e, s') | (Inr x, s') \<Rightarrow> f x s')"

text \<open>An external call that returns nothing, and one that returns a value.\<close>

definition call0 :: "event \<Rightarrow> py_exception option \<Rightarrow> unit action" where
  "call0 ev outcome s =
     (case outcome of Some e \<Rightarrow> (Inl e, emit ev s) | None \<Rightarrow> (Inr (), emit ev s))"

definition call1 :: "event \<Rightarrow> py_exception + 'a \<Rightarrow> 'a action" where
  "call1 ev outcome s = (outcome, emit ev s)"

text \<open>\<^verbatim>\<open>try: body except Exception as e: return handler(e)\<close>\<close>

definition try_except :: "'a action \<Rightarrow> (py_exception \<Rightarrow> 'a) \<Rightarrow> state \<Rightarrow> 'a \<times> state" where
  "try_except body handler s =
     (case body s of (Inl e, s') \<Rightarrow> (handler e, s') | (Inr r, s') \<Rightarrow> (r, s'))"

section \<open>Python primitives the operations use\<close>

text \<open>
  A \<open>char\<close> is a code point below 256, and a string is text as Python holds it (the
  marker file as decoded by \<^verbatim>\<open>open(sha_file, "r")\<close>). \<^verbatim>\<open>str.isspace\<close> on that range:
  tab, line feed, vertical tab, form feed, carriage return (9 to 13), the four separators
  0x1C to 0x1F, space (32), next line (0x85) and no-break space (0xA0). The whitespace
  code points from U+1680 on are outside the type.
\<close>

definition isspace :: "char \<Rightarrow> bool" where
  "isspace c = (let n = of_char c :: nat in
     (9 \<le> n \<and> n \<le> 13) \<or> (28 \<le> n \<and> n \<le> 32) \<or> n = 133 \<or> n = 160)"

text \<open>\<^verbatim>\<open>str.strip()\<close>: leading and trailing whitespace removed.\<close>

definition strip :: "string \<Rightarrow> string" where
  "strip s = rev (dropWhile isspace (rev (dropWhile isspace s)))"

definition type_name :: "pyval \<Rightarrow> string" where
  "type_name v = (case v of
      PNone \<Rightarrow> ''NoneType'' | PBool _ \<Rightarrow> ''bool'' | PInt _ \<Rightarrow> ''int''
    | PStr _ \<Rightarrow> ''str'' | PList _ \<Rightarrow> ''list'' | PDict _ \<Rightarrow> ''dict'')"

definition quoted :: "string \<Rightarrow> string" where
  "quoted s = CHR 0x27 # s @ [CHR 0x27]"

text \<open>The \<^verbatim>\<open>AttributeError\<close> of a method call on a value that has no such method.\<close>

definition no_attribute :: "pyval \<Rightarrow> string \<Rightarrow> py_exception" where
  "no_attribute v a =
     Exception (quoted (type_name v) @ '' object has no attribute '' @ quoted a)"

text \<open>Evaluating an expression that may raise but calls nothing outside.\<close>

definition lift :: "py_exception + 'a \<Rightarrow> 'a action" where
  "lift x s = (x, s)"

definition raise_if :: "py_exception option \<Rightarrow> unit action" where
  "raise_if outcome s = (case outcome of Some e \<Rightarrow> (Inl e, s) | None \<Rightarrow> (Inr (), s))"

text \<open>\<^verbatim>\<open>d.get(k)\<close> on the items of a dictionary: the value, or \<^verbatim>\<open>None\<close>.\<close>

definition items_get :: "(string \<times> pyval) list \<Rightarrow> string \<Rightarrow> pyval" where
  "items_get kvs k = (case map_of kvs k of Some v \<Rightarrow> v | None \<Rightarrow> PNone)"

text \<open>\<^verbatim>\<open>v.get(k, default)\<close>: only a dictionary has the method.\<close>

definition get_default :: "pyval \<Rightarrow> string \<Rightarrow> pyval \<Rightarrow> py_exception + pyval" where
  "get_default v k d = (case v of
      PDict kvs \<Rightarrow> Inr (case map_of kvs k of Some x \<Rightarrow> x | None \<Rightarrow> d)
    | _ \<Rightarrow> Inl (no_attribute v ''get''))"

text \<open>Truth value testing, as \<^verbatim>\<open>not issues\<close> applies it.\<close>

definition truthy :: "pyval \<Rightarrow> bool" where
  "truthy v = (case v of
      PNone \<Rightarrow> False | PBool b \<Rightarrow> b | PInt i \<Rightarrow> i \<noteq> 0
    | PStr x \<Rightarrow> x \<noteq> [] | PList xs \<Rightarrow> xs \<noteq> [] | PDict kvs \<Rightarrow> kvs \<noteq> [])"

definition py_len :: "pyval \<Rightarrow> py_exception + nat" where
  "py_len v = (case v of
      PStr x \<Rightarrow> Inr (length x) | PList xs \<Rightarrow> Inr (length xs) | PDict kvs \<Rightarrow> Inr (length kvs)
    | _ \<Rightarrow> Inl (Exception (''object of type '' @ quoted (type_name v) @ '' has no len()'')))"

text \<open>The elements \<^verbatim>\<open>for i in v[:10]\<close> iterates over. Slicing a dictionary raises
  (\<^verbatim>\<open>TypeError\<close> with this text up to CPython 3.11).\<close>

definition first10 :: "pyval \<Rightarrow> py_exception + pyval list" where
  "first10 v = (case v of
      PList xs \<Rightarrow> Inr (take 10 xs)
    | PStr x \<Rightarrow> Inr (map (\<lambda>c. PStr [c]) (take 10 x))
    | PDict _ \<Rightarrow> Inl (Exception (''unhashable type: '' @ quoted ''slice''))
    | _ \<Rightarrow> Inl (Exception (quoted (type_name v) @ '' object is not subscriptable'')))"

text \<open>The dictionary built for one issue; \<^verbatim>\<open>i.get("message")\<close> raises when \<open>i\<close> is not
  a dictionary.\<close>

definition project :: "pyval \<Rightarrow> py_exception + pyval" where
  "project i = (case i of
      PDict kvs \<Rightarrow> Inr (PDict
        [(''message'', items_get kvs ''message''),
         (''severity'', items_get kvs ''severity''),
         (''type'', items_get kvs ''type''),
         (''component'', items_get kvs ''component''),
         (''line'', items_get kvs ''line'')])
    | _ \<Rightarrow> Inl (no_attribute i ''get''))"

text \<open>The list comprehension: in order, stopping at the first exception.\<close>

fun project_all :: "pyval list \<Rightarrow> py_exception + pyval list" where
  "project_all [] = Inr []"
| "project_all (i # rest) =
     (case project i of
        Inl e \<Rightarrow> Inl e
      | Inr p \<Rightarrow> (case project_all rest of Inl e \<Rightarrow> Inl e | Inr ps \<Rightarrow> Inr (p # ps)))"

section \<open>The operations\<close>

subsection \<open>get_sonar_issues\<close>

definition get_sonar_issues_body :: "env \<Rightarrow> pyval action" where
  "get_sonar_issues_body env =
     seq (call1 (HttpGet (SONARQUBE_URL env @ ''/api/issues/search'')
                   [(''componentKeys'', PROJECT_KEY env), (''resolved'', ''false''), (''ps'', ''100'')])
                (sonar_get env)) (\<lambda>response.
     seq (raise_if (raise_for_status response)) (\<lambda>_.
     seq (lift (json response)) (\<lambda>decoded.
     seq (lift (get_default decoded ''issues'' (PList []))) (\<lambda>issues.
       if \<not> truthy issues then
         ret (PDict [(''status'', PStr ''No issues found''),
                     (''total'', PInt 0),
                     (''issues'', PList [])])
       else
         seq (lift (py_len issues)) (\<lambda>n.
         seq (lift (first10 issues)) (\<lambda>shown.
         seq (lift (project_all shown)) (\<lambda>projected.
           ret (PDict [(''status'', PStr ''Issues found''),
                       (''total'', PInt (int n)),
                       (''issues'', PList projected)]))))))))"

definition get_sonar_issues :: "env \<Rightarrow> state \<Rightarrow> pyval \<times> state" where
  "get_sonar_issues env =
     try_except (get_sonar_issues_body env) (\<lambda>e. PDict [(''error'', PStr (str_of e))])"

subsection \<open>apply_code_fixes\<close>

definition subprocess_run :: "env \<Rightarrow> string list \<Rightarrow> unit action" where
  "subprocess_run env argv = call0 (SubprocessRun argv CLONE_DIR) (run env argv)"

definition apply_code_fixes_body :: "env \<Rightarrow> pyval action" where
  "apply_code_fixes_body env =
     seq (subprocess_run env [''black'', ''.'']) (\<lambda>_.
     seq (subprocess_run env [''isort'', ''.'']) (\<lambda>_.
       ret (PStr '' Code formatted using black and isort.'')))"

definition apply_code_fixes :: "env \<Rightarrow> state \<Rightarrow> pyval \<times> state" where
  "apply_code_fixes env =
     try_except (apply_code_fixes_body env)
       (\<lambda>e. PStr ('' Failed to apply code fixes: '' @ str_of e))"

subsection \<open>commit_and_push\<close>

definition commit_and_push_body :: "env \<Rightarrow> pyval action" where
  "commit_and_push_body env =
     seq (subprocess_run env [''git'', ''checkout'', ''-b'', NEW_BRANCH]) (\<lambda>_.
     seq (subprocess_run env [''git'', ''add'', ''.'']) (\<lambda>_.
     seq (subprocess_run env
            [''git'', ''commit'', ''-m'', ''fix: auto-fix based on SonarQube issues'']) (\<lambda>_.
     seq (subprocess_run env [''git'', ''push'', ''--set-upstream'', ''origin'', NEW_BRANCH]) (\<lambda>_.
       ret (PStr ('' Changes pushed to branch `'' @ NEW_BRANCH @ ''`.''))))))"

definition commit_and_push :: "env \<Rightarrow> state \<Rightarrow> pyval \<times> state" where
  "commit_and_push env =
     try_except (commit_and_push_body env)
       (\<lambda>e. PStr ('' Git commit/push failed: '' @ str_of e))"

subsection \<open>raise_pr\<close>

definition raise_pr_body :: "env \<Rightarrow> pyval action" where
  "raise_pr_body env =
     seq (call0 (GetRepo (GITHUB_TOKEN env) (GITHUB_REPO env)) (pr_get_repo env)) (\<lambda>_.
     seq (call1 (CreatePull ''Auto-fix: SonarQube violations''
                   ''This PR auto-fixes code formatting issues based on SonarQube results.''
                   NEW_BRANCH ''main'')
                (create_pull env)) (\<lambda>html_url.
       ret (PDict [(''url'', PStr html_url), (''status'', PStr '' PR created successfully'')])))"

definition raise_pr :: "env \<Rightarrow> state \<Rightarrow> pyval \<times> state" where
  "raise_pr env =
     try_except (raise_pr_body env) (\<lambda>e. PDict [(''error'', PStr (str_of e))])"

subsection \<open>full_auto_fix_pipeline\<close>

definition full_auto_fix_pipeline :: "env \<Rightarrow> state \<Rightarrow> pyval \<times> state" where
  "full_auto_fix_pipeline env s =
     (case get_sonar_issues env s of (r1, s1) \<Rightarrow>
      case apply_code_fixes env s1 of (r2, s2) \<Rightarrow>
      case commit_and_push env s2 of (r3, s3) \<Rightarrow>
      case raise_pr env s3 of (r4, s4) \<Rightarrow>
        (PDict [(''get_sonar_issues'', r1),
                (''apply_fixes'', r2),
                (''commit_push'', r3),
                (''create_pr'', r4)], s4))"

subsection \<open>watch_github_commit\<close>

text \<open>\<^verbatim>\<open>previous_sha\<close>: \<^verbatim>\<open>None\<close> when the marker file does not exist, its stripped
  contents otherwise.\<close>

definition load_previous_sha :: "env \<Rightarrow> string option action" where
  "load_previous_sha env s =
     (case marker s of
        None \<Rightarrow> (Inr None, emit (PathExists sha_file) s)
      | Some contents \<Rightarrow>
          seq (call0 (ReadFile sha_file) (read_marker env)) (\<lambda>_. ret (Some (strip contents)))
            (emit (PathExists sha_file) s))"

text \<open>\<^verbatim>\<open>with open(sha_file, "w") as f: f.write(latest_commit)\<close>: opening truncates the
  file; the data is in the file once written and closed.\<close>

definition save_sha :: "env \<Rightarrow> string \<Rightarrow> unit action" where
  "save_sha env data =
     seq (\<lambda>s. case open_write env of
                 Some e \<Rightarrow> (Inl e, emit (OpenWrite sha_file) s)
               | None \<Rightarrow> (Inr (), (emit (OpenWrite sha_file) s)\<lparr>marker := Some []\<rparr>)) (\<lambda>_.
         (\<lambda>s. case flush_write env of
                 Some e \<Rightarrow> (Inl e, emit (WriteFile sha_file data) s)
               | None \<Rightarrow> (Inr (), (emit (WriteFile sha_file data) s)\<lparr>marker := Some data\<rparr>)))"

definition watch_github_commit_body :: "env \<Rightarrow> string \<Rightarrow> pyval action" where
  "watch_github_commit_body env branch =
     seq (call0 (GetRepo (GITHUB_TOKEN env) (GITHUB_REPO env)) (watch_get_repo env)) (\<lambda>_.
     seq (call1 (GetBranch branch) (get_branch env branch)) (\<lambda>latest_commit.
     seq (load_previous_sha env) (\<lambda>previous_sha.
       if Some latest_commit = previous_sha then
         ret (PDict [(''status'', PStr '' No new commits''),
                     (''latest_commit'', PStr latest_commit)])
       else
         seq (call1 (WorkflowRunsTotalCount branch) (runs_totalCount env branch)) (\<lambda>totalCount.
         seq (if totalCount > 0
              then seq (call1 (WorkflowRunsFirst branch) (runs_first env branch))
                     (\<lambda>conclusion. ret (Some conclusion))
              else ret None) (\<lambda>latest_run.
           case latest_run of
             None \<Rightarrow> ret (PDict [(''status'', PStr '' No recent workflow run found'')])
           | Some conclusion \<Rightarrow>
               if conclusion \<noteq> Some ''success'' then
                 ret (PDict [(''status'', PStr '' Build failed or still running''),
                             (''build_status'',
                              (case conclusion of None \<Rightarrow> PNone | Some c \<Rightarrow> PStr c))])
               else
                 seq (save_sha env latest_commit) (\<lambda>_.
                 seq (\<lambda>s. case full_auto_fix_pipeline env s of (r, s') \<Rightarrow> (Inr r, s')) (\<lambda>result.
                   ret (PDict [(''status'', PStr ''Build succeeded and commit processed''),
                               (''commit'', PStr latest_commit),
                               (''pipeline_result'', result)]))))))))"

definition watch_github_commit :: "env \<Rightarrow> string \<Rightarrow> state \<Rightarrow> pyval \<times> state" where
  "watch_github_commit env branch =
     try_except (watch_github_commit_body env branch)
       (\<lambda>e. PDict [(''error'', PStr (str_of e))])"

section \<open>Notions the properties are stated with\<close>

text \<open>The value a result dictionary holds under a key, if it is a dictionary and has
  the key.\<close>

definition field :: "pyval \<Rightarrow> string \<Rightarrow> pyval option" where
  "field r k = (case r of PDict kvs \<Rightarrow> map_of kvs k | _ \<Rightarrow> None)"

text \<open>The external calls made between two states of one invocation.\<close>

definition new_events :: "state \<Rightarrow> state \<Rightarrow> event list" where
  "new_events s s' = drop (length (trace s)) (trace s')"

text \<open>A commit hash as the hosting service gives it: hexadecimal digits.\<close>

definition hexdigit :: "char \<Rightarrow> bool" where
  "hexdigit c = (c \<in> set ''0123456789abcdef'')"

definition is_sha :: "string \<Rightarrow> bool" where
  "is_sha h = list_all hexdigit h"

text \<open>An event that, if it is a push, pushes \<open>NEW_BRANCH\<close> to \<^verbatim>\<open>origin\<close>, and
  if it opens a pull request, opens it from \<open>NEW_BRANCH\<close> into \<^verbatim>\<open>main\<close>.\<close>

definition targets_fixed_branch :: "event \<Rightarrow> bool" where
  "targets_fixed_branch ev = (case ev of
      SubprocessRun argv cwd \<Rightarrow>
        (if take 2 argv = [''git'', ''push'']
         then argv = [''git'', ''push'', ''--set-upstream'', ''origin'', ''auto-fix-sonar-issues'']
         else True)
    | CreatePull title body head base \<Rightarrow> head = ''auto-fix-sonar-issues'' \<and> base = ''main''
    | _ \<Rightarrow> True)"

text \<open>The external calls one run of the pipeline makes: each step's first call always,
  its later calls as long as the earlier ones of the same step return.\<close>

definition pipeline_events :: "env \<Rightarrow> event list" where
  "pipeline_events env =
     [HttpGet (SONARQUBE_URL env @ ''/api/issues/search'')
        [(''componentKeys'', PROJECT_KEY env), (''resolved'', ''false''), (''ps'', ''100'')]] @
     (SubprocessRun [''black'', ''.''] CLONE_DIR #
        (if run env [''black'', ''.''] = None
         then [SubprocessRun [''isort'', ''.''] CLONE_DIR] else [])) @
     (SubprocessRun [''git'', ''checkout'', ''-b'', NEW_BRANCH] CLONE_DIR #
        (if run env [''git'', ''checkout'', ''-b'', NEW_BRANCH] \<noteq> None then []
         else SubprocessRun [''git'', ''add'', ''.''] CLONE_DIR #
           (if run env [''git'', ''add'', ''.''] \<noteq> None then []
            else SubprocessRun
                   [''git'', ''commit'', ''-m'', ''fix: auto-fix based on SonarQube issues'']
                   CLONE_DIR #
              (if run env [''git'', ''commit'', ''-m'', ''fix: auto-fix based on SonarQube issues'']
                    \<noteq> None then []
               else [SubprocessRun [''git'', ''push'', ''--set-upstream'', ''origin'', NEW_BRANCH]
                       CLONE_DIR])))) @
     (GetRepo (GITHUB_TOKEN env) (GITHUB_REPO env) #
        (if pr_get_repo env = None
         then [CreatePull ''Auto-fix: SonarQube violations''
                 ''This PR auto-fixes code formatting issues based on SonarQube results.''
                 NEW_BRANCH ''main'']
         else []))"

section \<open>Concrete environments\<close>

text \<open>Everything succeeds: the branch head is \<open>abc123\<close>, the latest workflow run
  concluded with success, the quality server reports no issue.\<close>

definition env_ok :: env where
  "env_ok = \<lparr>
     SONARQUBE_URL = ''http://localhost:9000'',
     PROJECT_KEY = ''proj'',
     GITHUB_TOKEN = ''token'',
     GITHUB_REPO = ''owner/repo'',
     watch_get_repo = None,
     get_branch = (\<lambda>b. Inr ''abc123''),
     read_marker = None,
     runs_totalCount = (\<lambda>b. Inr 1),
     runs_first = (\<lambda>b. Inr (Some ''success'')),
     open_write = None,
     flush_write = None,
     sonar_get = Inr \<lparr>raise_for_status = None, json = Inr (PDict [(''issues'', PList [])])\<rparr>,
     run = (\<lambda>argv. None),
     pr_get_repo = None,
     create_pull = Inr ''https://github.com/owner/repo/pull/1''\<rparr>"

text \<open>Every external call raises.\<close>

definition env_down :: env where
  "env_down = env_ok\<lparr>
     watch_get_repo := Some (Exception ''bad credentials''),
     sonar_get := Inl (Exception ''connection refused''),
     run := (\<lambda>argv. Some (Exception ''boom'')),
     pr_get_repo := Some (Exception ''bad credentials'')\<rparr>"

text \<open>The build succeeded, and every step of the pipeline fails.\<close>

definition env_pipeline_fails :: env where
  "env_pipeline_fails = env_ok\<lparr>
     sonar_get := Inl (Exception ''connection refused''),
     run := (\<lambda>argv. Some (Exception ''boom'')),
     pr_get_repo := Some (Exception ''bad credentials'')\<rparr>"

text \<open>The latest workflow run failed.\<close>

definition env_build_failed :: env where
  "env_build_failed = env_ok\<lparr>runs_first := (\<lambda>b. Inr (Some ''failure''))\<rparr>"

text \<open>No workflow run exists for the branch.\<close>

definition env_no_runs :: env where
  "env_no_runs = env_ok\<lparr>runs_totalCount := (\<lambda>b. Inr 0)\<rparr>"

text \<open>The quality server reports fifteen issues, numbered by their line.\<close>

definition issue :: "int \<Rightarrow> pyval" where
  "issue n = PDict [(''key'', PStr ''k''), (''message'', PStr ''m''), (''line'', PInt n)]"

definition env_fifteen :: env where
  "env_fifteen = env_ok\<lparr>
     sonar_get := Inr \<lparr>raise_for_status = None,
       json = Inr (PDict [(''total'', PInt 15), (''issues'', PList (map issue [1..15]))])\<rparr>\<rparr>"

definition state0 :: state where
  "state0 = \<lparr>marker = None, trace = []\<rparr>"

definition state_seen :: state where
  "state_seen = \<lparr>marker = Some ''abc123'', trace = []\<rparr>"

text \<open>The marker file holds the head of \<open>env_ok\<close> between a next-line character and
  a no-break space followed by a line feed.\<close>

definition state_padded :: state where
  "state_padded = \<lparr>marker = Some (CHR 0x85 # ''abc123'' @ [CHR 0xA0, CHR 0x0A]), trace = []\<rparr>"

text \<open>The marker file holds another hash, followed by a line feed.\<close>

definition state_old :: state where
  "state_old = \<lparr>marker = Some (''000aaa'' @ [CHR 0x0A]), trace = []\<rparr>"

section \<open>Helper facts\<close>

lemmas act_defs =
  seq_def call0_def call1_def ret_def lift_def raise_if_def try_except_def subprocess_run_def

lemmas watch_defs =
  watch_github_commit_def watch_github_commit_body_def load_previous_sha_def save_sha_def

lemma project_all_dicts:
  "project_all (map PDict fs) =
     Inr (map (\<lambda>f. PDict [(''message'', items_get f ''message''),
                           (''severity'', items_get f ''severity''),
                           (''type'', items_get f ''type''),
                           (''component'', items_get f ''component''),
                           (''line'', items_get f ''line'')]) fs)"
  by (induction fs) (simp_all add: project_def)

text \<open>What each pipeline step does to the state, and that its result does not depend on
  the state it starts in.\<close>

lemma get_sonar_issues_state:
  "snd (get_sonar_issues env s) =
     s\<lparr>trace := trace s @
        [HttpGet (SONARQUBE_URL env @ ''/api/issues/search'')
           [(''componentKeys'', PROJECT_KEY env), (''resolved'', ''false''), (''ps'', ''100'')]]\<rparr>"
  by (simp add: get_sonar_issues_def get_sonar_issues_body_def act_defs emit_def
      split: sum.splits option.splits prod.splits)

lemma get_sonar_issues_result:
  "fst (get_sonar_issues env s) = fst (get_sonar_issues env s')"
  by (simp add: get_sonar_issues_def get_sonar_issues_body_def act_defs
      split: sum.splits option.splits prod.splits)

lemma apply_code_fixes_state:
  "snd (apply_code_fixes env s) =
     s\<lparr>trace := trace s @
        SubprocessRun [''black'', ''.''] CLONE_DIR #
        (if run env [''black'', ''.''] = None
         then [SubprocessRun [''isort'', ''.''] CLONE_DIR] else [])\<rparr>"
  by (simp add: apply_code_fixes_def apply_code_fixes_body_def act_defs emit_def
      split: option.splits)

lemma apply_code_fixes_result:
  "fst (apply_code_fixes env s) = fst (apply_code_fixes env s')"
  by (simp add: apply_code_fixes_def apply_code_fixes_body_def act_defs
      split: option.splits)

lemma commit_and_push_state:
  "snd (commit_and_push env s) =
     s\<lparr>trace := trace s @
        SubprocessRun [''git'', ''checkout'', ''-b'', NEW_BRANCH] CLONE_DIR #
        (if run env [''git'', ''checkout'', ''-b'', NEW_BRANCH] \<noteq> None then []
         else SubprocessRun [''git'', ''add'', ''.''] CLONE_DIR #
           (if run env [''git'', ''add'', ''.''] \<noteq> None then []
            else SubprocessRun
                   [''git'', ''commit'', ''-m'', ''fix: auto-fix based on SonarQube issues'']
                   CLONE_DIR #
              (if run env [''git'', ''commit'', ''-m'', ''fix: auto-fix based on SonarQube issues'']
                    \<noteq> None then []
               else [SubprocessRun [''git'', ''push'', ''--set-upstream'', ''origin'', NEW_BRANCH]
                       CLONE_DIR])))\<rparr>"
  by (simp add: commit_and_push_def commit_and_push_body_def act_defs emit_def
      split: option.splits)

lemma commit_and_push_result:
  "fst (commit_and_push env s) = fst (commit_and_push env s')"
  by (simp add: commit_and_push_def commit_and_push_body_def act_defs
      split: option.splits)

lemma raise_pr_state:
  "snd (raise_pr env s) =
     s\<lparr>trace := trace s @
        GetRepo (GITHUB_TOKEN env) (GITHUB_REPO env) #
        (if pr_get_repo env = None
         then [CreatePull ''Auto-fix: SonarQube violations''
                 ''This PR auto-fixes code formatting issues based on SonarQube results.''
                 NEW_BRANCH ''main'']
         else [])\<rparr>"
  by (simp add: raise_pr_def raise_pr_body_def act_defs emit_def
      split: sum.splits option.splits)

lemma raise_pr_result:
  "fst (raise_pr env s) = fst (raise_pr env s')"
  by (simp add: raise_pr_def raise_pr_body_def act_defs
      split: sum.splits option.splits)

lemma pipeline_unfold:
  "full_auto_fix_pipeline env s =
     (PDict [(''get_sonar_issues'', fst (get_sonar_issues env s)),
             (''apply_fixes'', fst (apply_code_fixes env s)),
             (''commit_push'', fst (commit_and_push env s)),
             (''create_pr'', fst (raise_pr env s))],
      snd (raise_pr env (snd (commit_and_push env (snd (apply_code_fixes env
             (snd (get_sonar_issues env s)))))))) "
proof -
  obtain r1 s1 where 1: "get_sonar_issues env s = (r1, s1)" by fastforce
  obtain r2 s2 where 2: "apply_code_fixes env s1 = (r2, s2)" by fastforce
  obtain r3 s3 where 3: "commit_and_push env s2 = (r3, s3)" by fastforce
  obtain r4 s4 where 4: "raise_pr env s3 = (r4, s4)" by fastforce
  have a: "fst (apply_code_fixes env s) = r2"
    using apply_code_fixes_result [of env s s1] 2 by simp
  have b: "fst (commit_and_push env s) = r3"
    using commit_and_push_result [of env s s2] 3 by simp
  have c: "fst (raise_pr env s) = r4"
    using raise_pr_result [of env s s3] 4 by simp
  show ?thesis
    by (simp add: full_auto_fix_pipeline_def 1 2 3 4 a b c)
qed

lemma trace_extend_twice:
  "s\<lparr>trace := trace s @ a\<rparr>\<lparr>trace := trace (s\<lparr>trace := trace s @ a\<rparr>) @ b\<rparr> =
     s\<lparr>trace := trace s @ a @ b\<rparr>"
  by simp

lemma pipeline_state:
  "snd (full_auto_fix_pipeline env s) = s\<lparr>trace := trace s @ pipeline_events env\<rparr>"
  unfolding pipeline_unfold snd_conv pipeline_events_def
  by (simp only: raise_pr_state commit_and_push_state apply_code_fixes_state
      get_sonar_issues_state trace_extend_twice append_assoc)

lemma pipeline_marker: "marker (snd (full_auto_fix_pipeline env s)) = marker s"
  by (simp add: pipeline_state)

lemma pipeline_result: "fst (full_auto_fix_pipeline env s) = fst (full_auto_fix_pipeline env s')"
  by (simp add: pipeline_unfold get_sonar_issues_result [of env s s']
      apply_code_fixes_result [of env s s'] commit_and_push_result [of env s s']
      raise_pr_result [of env s s'])


text \<open>Facts about \<open>watch_github_commit\<close> on its path into the pipeline.\<close>

lemma hexdigit_not_space: "hexdigit c \<Longrightarrow> \<not> isspace c"
  unfolding hexdigit_def isspace_def Let_def
  by (elim disjE | simp)+

lemma dropWhile_none: "\<forall>c \<in> set xs. \<not> P c \<Longrightarrow> dropWhile P xs = xs"
  by (cases xs) auto

lemma strip_sha: "is_sha h \<Longrightarrow> strip h = h"
proof -
  assume a: "is_sha h"
  then have ns: "\<forall>c \<in> set h. \<not> isspace c"
    by (auto simp add: is_sha_def list_all_iff hexdigit_not_space)
  then have nr: "\<forall>c \<in> set (rev h). \<not> isspace c"
    by simp
  show ?thesis
    by (simp add: strip_def dropWhile_none [OF ns] dropWhile_none [OF nr])
qed


lemma run_pipeline_action:
  "(\<lambda>s. case full_auto_fix_pipeline env s of (r, s') \<Rightarrow> (Inr r, s')) =
   (\<lambda>s. (Inr (fst (full_auto_fix_pipeline env s0)),
          s\<lparr>trace := trace s @ pipeline_events env\<rparr>))"
proof (rule ext)
  fix s
  have "fst (full_auto_fix_pipeline env s) = fst (full_auto_fix_pipeline env s0)"
    by (rule pipeline_result)
  then show "(case full_auto_fix_pipeline env s of (r, s') \<Rightarrow> (Inr r, s')) =
        (Inr (fst (full_auto_fix_pipeline env s0)), s\<lparr>trace := trace s @ pipeline_events env\<rparr>)"
    by (simp add: split_beta pipeline_state)
qed

lemma watch_success:
  assumes "watch_get_repo env = None" and "get_branch env branch = Inr head"
    and "case marker s of None \<Rightarrow> True
         | Some contents \<Rightarrow> read_marker env = None \<and> strip contents \<noteq> head"
    and "runs_totalCount env branch = Inr n" and "0 < n"
    and "runs_first env branch = Inr (Some ''success'')"
    and "open_write env = None" and "flush_write env = None"
  shows "fst (watch_github_commit env branch s) =
          PDict [(''status'', PStr ''Build succeeded and commit processed''),
                 (''commit'', PStr head),
                 (''pipeline_result'', fst (full_auto_fix_pipeline env s))]"
    and "marker (snd (watch_github_commit env branch s)) = Some head"
    and "trace (snd (watch_github_commit env branch s)) =
           trace s @
             ([GetRepo (GITHUB_TOKEN env) (GITHUB_REPO env), GetBranch branch,
               PathExists sha_file] @
              (if marker s = None then [] else [ReadFile sha_file]) @
              [WorkflowRunsTotalCount branch, WorkflowRunsFirst branch,
               OpenWrite sha_file, WriteFile sha_file head]) @
             pipeline_events env"
proof -
  note defs = watch_github_commit_def watch_github_commit_body_def load_previous_sha_def
    save_sha_def run_pipeline_action [of env s] act_defs emit_def
  show "fst (watch_github_commit env branch s) =
          PDict [(''status'', PStr ''Build succeeded and commit processed''),
                 (''commit'', PStr head),
                 (''pipeline_result'', fst (full_auto_fix_pipeline env s))]"
  proof (cases "marker s")
    case None
    then show ?thesis using assms(1,2,4-8) by (simp add: defs)
  next
    case (Some c)
    with assms(3) have "read_marker env = None" "strip c \<noteq> head" by simp_all
    then show ?thesis using Some assms(1,2,4-8) by (simp add: defs)
  qed
  show "marker (snd (watch_github_commit env branch s)) = Some head"
  proof (cases "marker s")
    case None
    then show ?thesis using assms(1,2,4-8) by (simp add: defs)
  next
    case (Some c)
    with assms(3) have "read_marker env = None" "strip c \<noteq> head" by simp_all
    then show ?thesis using Some assms(1,2,4-8) by (simp add: defs)
  qed
  show "trace (snd (watch_github_commit env branch s)) =
           trace s @
             ([GetRepo (GITHUB_TOKEN env) (GITHUB_REPO env), GetBranch branch,
               PathExists sha_file] @
              (if marker s = None then [] else [ReadFile sha_file]) @
              [WorkflowRunsTotalCount branch, WorkflowRunsFirst branch,
               OpenWrite sha_file, WriteFile sha_file head]) @
             pipeline_events env"
  proof (cases "marker s")
    case None
    then show ?thesis using assms(1,2,4-8) by (simp add: defs)
  next
    case (Some c)
    with assms(3) have "read_marker env = None" "strip c \<noteq> head" by simp_all
    then show ?thesis using Some assms(1,2,4-8) by (simp add: defs)
  qed
qed


lemma pipeline_events_fixed: "list_all targets_fixed_branch (pipeline_events env)"
  by (simp add: pipeline_events_def targets_fixed_branch_def CLONE_DIR_def NEW_BRANCH_def)

lemma watch_events_fixed:
  "list_all targets_fixed_branch (new_events s (snd (watch_github_commit env branch s)))"
  by (simp add: new_events_def watch_defs run_pipeline_action [of env s] act_defs emit_def
      pipeline_events_fixed targets_fixed_branch_def
      split: option.splits sum.splits)

lemma watch_pipeline_result:
  "field (fst (watch_github_commit env branch s)) ''pipeline_result'' = Some r \<Longrightarrow>
     r = fst (full_auto_fix_pipeline env s)"
  by (simp add: field_def watch_defs run_pipeline_action [of env s] act_defs emit_def
      split: option.splits sum.splits if_splits)


lemma watch_same_head:
  assumes "watch_get_repo env = None" and "get_branch env branch = Inr head"
    and "marker s = Some contents" and "read_marker env = None" and "strip contents = head"
  shows "fst (watch_github_commit env branch s) =
           PDict [(''status'', PStr '' No new commits''), (''latest_commit'', PStr head)]"
  using assms by (simp add: watch_defs act_defs emit_def)

section \<open>get_sonar_issues\<close>

text \<open>
  C5. When the quality server answers successfully with an issue list of more than ten
  entries whose first ten are JSON objects, \<open>get_sonar_issues\<close> returns status
  "Issues found", \<open>total\<close> equal to the length of the whole list, and an \<open>issues\<close> list
  that holds exactly the first ten issues, in the order of the response, each reduced to
  the five fields message, severity, type, component, line (\<^verbatim>\<open>None\<close> for a field the
  issue lacks).
\<close>

theorem get_sonar_issues_truncates:
  assumes "sonar_get env = Inr resp" and "raise_for_status resp = None"
    and "json resp = Inr (PDict kvs)" and "map_of kvs ''issues'' = Some (PList xs)"
    and "length xs > 10" and "take 10 xs = map PDict fs"
  shows "fst (get_sonar_issues env s) =
           PDict [(''status'', PStr ''Issues found''),
                  (''total'', PInt (int (length xs))),
                  (''issues'', PList (map (\<lambda>f. PDict [(''message'', items_get f ''message''),
                           (''severity'', items_get f ''severity''),
                           (''type'', items_get f ''type''),
                           (''component'', items_get f ''component''),
                           (''line'', items_get f ''line'')]) fs))]
         \<and> length fs = 10"
proof -
  from assms(5) have ne: "xs \<noteq> []" by auto
  from assms(5,6) have len: "length fs = 10"
    by (metis length_map length_take min.absorb2 less_imp_le_nat)
  show ?thesis
    using assms(1-4) ne len
    by (simp add: get_sonar_issues_def get_sonar_issues_body_def act_defs get_default_def
        truthy_def py_len_def first10_def assms(6) project_all_dicts)
qed

theorem get_sonar_issues_truncates_witness:
  "fst (get_sonar_issues env_fifteen state0) =
     PDict [(''status'', PStr ''Issues found''),
            (''total'', PInt 15),
            (''issues'', PList (map (\<lambda>n. PDict [(''message'', PStr ''m''),
                           (''severity'', PNone),
                           (''type'', PNone),
                           (''component'', PNone),
                           (''line'', PInt n)]) [1..10]))]"
proof -
  have u15: "[1..15] = [1,2,3,4,5,6,7,8,9,10,11,12,13,14,15::int]" by code_simp
  have u10: "[1..10] = [1,2,3,4,5,6,7,8,9,10::int]" by code_simp
  let ?kvs = "[(''total'', PInt 15), (''issues'', PList (map issue [1..15]))]"
  let ?resp = "\<lparr>raise_for_status = None, json = Inr (PDict ?kvs)\<rparr>"
  let ?fs = "map (\<lambda>n. [(''key'', PStr ''k''), (''message'', PStr ''m''), (''line'', PInt n)]) [1..10]"
  have h1: "sonar_get env_fifteen = Inr ?resp" by (simp add: env_fifteen_def env_ok_def)
  have h2: "raise_for_status ?resp = None" by simp
  have h3: "json ?resp = Inr (PDict ?kvs)" by simp
  have h4: "map_of ?kvs ''issues'' = Some (PList (map issue [1..15]))" by simp
  have h5: "length (map issue [1..15]) > 10" by simp
  have h6: "take 10 (map issue [1..15]) = map PDict ?fs"
    by (simp add: u15 u10 issue_def)
  show ?thesis
    using get_sonar_issues_truncates [OF h1 h2 h3 h4 h5 h6, of state0]
    by (simp add: u10 items_get_def)
qed

text \<open>
  C6. When the quality server answers successfully and the issue list is empty (or the
  answer has no \<open>issues\<close> key, which the code reads as an empty list),
  \<open>get_sonar_issues\<close> returns status "No issues found", \<open>total\<close> 0 and an empty
  \<open>issues\<close> list; the result has no \<open>error\<close> field.
\<close>

theorem get_sonar_issues_empty:
  assumes "sonar_get env = Inr resp" and "raise_for_status resp = None"
    and "json resp = Inr (PDict kvs)"
    and "map_of kvs ''issues'' = Some (PList []) \<or> map_of kvs ''issues'' = None"
  shows "fst (get_sonar_issues env s) =
           PDict [(''status'', PStr ''No issues found''), (''total'', PInt 0), (''issues'', PList [])]
         \<and> field (fst (get_sonar_issues env s)) ''error'' = None"
  using assms
  by (auto simp add: get_sonar_issues_def get_sonar_issues_body_def act_defs get_default_def
        truthy_def field_def)

theorem get_sonar_issues_empty_witness:
  "fst (get_sonar_issues env_ok state0) =
           PDict [(''status'', PStr ''No issues found''), (''total'', PInt 0), (''issues'', PList [])]
         \<and> field (fst (get_sonar_issues env_ok state0)) ''error'' = None"
proof -
  let ?kvs = "[(''issues'', PList [])]"
  let ?resp = "\<lparr>raise_for_status = None, json = Inr (PDict ?kvs)\<rparr>"
  have h1: "sonar_get env_ok = Inr ?resp" by (simp add: env_ok_def)
  have h2: "raise_for_status ?resp = None" by simp
  have h3: "json ?resp = Inr (PDict ?kvs)" by simp
  have h4: "map_of ?kvs ''issues'' = Some (PList []) \<or> map_of ?kvs ''issues'' = None" by simp
  show ?thesis
    using get_sonar_issues_empty [OF h1 h2 h3 h4, of state0] by (simp add: field_def)
qed

section \<open>apply_code_fixes\<close>

text \<open>
  C7. When the formatting command \<^verbatim>\<open>black .\<close> fails, which is how a non-zero exit
  shows under \<^verbatim>\<open>check=True\<close>, \<open>apply_code_fixes\<close> returns the string that begins with
  the marker " Failed to apply code fixes: " and continues with the text of the
  exception, and the only command it ran is \<^verbatim>\<open>black\<close>: \<^verbatim>\<open>isort\<close> is not run.
\<close>

theorem apply_code_fixes_black_fails:
  assumes "run env [''black'', ''.''] = Some e"
  shows "apply_code_fixes env s =
           (PStr ('' Failed to apply code fixes: '' @ str_of e),
            s\<lparr>trace := trace s @ [SubprocessRun [''black'', ''.''] ''cloned_repo'']\<rparr>)"
  using assms
  by (simp add: apply_code_fixes_def apply_code_fixes_body_def act_defs emit_def CLONE_DIR_def)

theorem apply_code_fixes_black_fails_witness:
  "run env_down [''black'', ''.''] = Some (Exception ''boom'') \<and>
   apply_code_fixes env_down state0 =
     (PStr '' Failed to apply code fixes: boom'',
      \<lparr>marker = None, trace = [SubprocessRun [''black'', ''.''] ''cloned_repo'']\<rparr>)"
  using apply_code_fixes_black_fails [of env_down "Exception ''boom''" state0]
  by (simp add: env_down_def env_ok_def state0_def)

section \<open>full_auto_fix_pipeline\<close>

text \<open>
  C4. Every invocation of \<open>full_auto_fix_pipeline\<close> returns a dictionary with exactly
  the four keys \<open>get_sonar_issues\<close>, \<open>apply_fixes\<close>, \<open>commit_push\<close>, \<open>create_pr\<close>, in
  that order, each holding the result of its step. Every step runs, whatever the earlier
  steps returned: among the external calls the invocation makes, the first call of each
  step (the request to the quality server, \<^verbatim>\<open>black\<close>, \<^verbatim>\<open>git checkout -b\<close>, the
  repository lookup of \<open>raise_pr\<close>) occurs exactly once, in this order.
\<close>

theorem pipeline_four_steps:
  "\<exists>evs. full_auto_fix_pipeline env s =
           (PDict [(''get_sonar_issues'', fst (get_sonar_issues env s)),
                   (''apply_fixes'', fst (apply_code_fixes env s)),
                   (''commit_push'', fst (commit_and_push env s)),
                   (''create_pr'', fst (raise_pr env s))],
            s\<lparr>trace := trace s @ evs\<rparr>)
        \<and> filter (\<lambda>ev. ev \<in> {HttpGet (SONARQUBE_URL env @ ''/api/issues/search'')
                                [(''componentKeys'', PROJECT_KEY env), (''resolved'', ''false''),
                                 (''ps'', ''100'')],
                              SubprocessRun [''black'', ''.''] ''cloned_repo'',
                              SubprocessRun [''git'', ''checkout'', ''-b'', ''auto-fix-sonar-issues'']
                                ''cloned_repo'',
                              GetRepo (GITHUB_TOKEN env) (GITHUB_REPO env)}) evs =
            [HttpGet (SONARQUBE_URL env @ ''/api/issues/search'')
               [(''componentKeys'', PROJECT_KEY env), (''resolved'', ''false''), (''ps'', ''100'')],
             SubprocessRun [''black'', ''.''] ''cloned_repo'',
             SubprocessRun [''git'', ''checkout'', ''-b'', ''auto-fix-sonar-issues''] ''cloned_repo'',
             GetRepo (GITHUB_TOKEN env) (GITHUB_REPO env)]"
proof -
  let ?h = "HttpGet (SONARQUBE_URL env @ ''/api/issues/search'')
              [(''componentKeys'', PROJECT_KEY env), (''resolved'', ''false''), (''ps'', ''100'')]"
  let ?g = "GetRepo (GITHUB_TOKEN env) (GITHUB_REPO env)"
  let ?P = "\<lambda>ev. ev \<in> {?h,
                              SubprocessRun [''black'', ''.''] ''cloned_repo'',
                              SubprocessRun [''git'', ''checkout'', ''-b'', ''auto-fix-sonar-issues'']
                                ''cloned_repo'',
                              ?g}"
  have res: "full_auto_fix_pipeline env s =
           (PDict [(''get_sonar_issues'', fst (get_sonar_issues env s)),
                   (''apply_fixes'', fst (apply_code_fixes env s)),
                   (''commit_push'', fst (commit_and_push env s)),
                   (''create_pr'', fst (raise_pr env s))],
            s\<lparr>trace := trace s @ pipeline_events env\<rparr>)"
    using pipeline_state [of env s] by (simp only: pipeline_unfold snd_conv)
  have fl: "filter ?P (pipeline_events env) =
            [?h,
             SubprocessRun [''black'', ''.''] ''cloned_repo'',
             SubprocessRun [''git'', ''checkout'', ''-b'', ''auto-fix-sonar-issues''] ''cloned_repo'',
             ?g]"
    unfolding pipeline_events_def filter_append
    by (simp add: CLONE_DIR_def NEW_BRANCH_def)
  from res fl show ?thesis by blast
qed

theorem pipeline_four_steps_witness:
  "\<exists>evs. full_auto_fix_pipeline env_down state0 =
           (PDict [(''get_sonar_issues'', PDict [(''error'', PStr ''connection refused'')]),
                   (''apply_fixes'', PStr '' Failed to apply code fixes: boom''),
                   (''commit_push'', PStr '' Git commit/push failed: boom''),
                   (''create_pr'', PDict [(''error'', PStr ''bad credentials'')])],
            \<lparr>marker = None, trace = evs\<rparr>)
        \<and> filter (\<lambda>ev. ev \<in> {HttpGet ''http://localhost:9000/api/issues/search''
                                [(''componentKeys'', ''proj''), (''resolved'', ''false''),
                                 (''ps'', ''100'')],
                              SubprocessRun [''black'', ''.''] ''cloned_repo'',
                              SubprocessRun [''git'', ''checkout'', ''-b'', ''auto-fix-sonar-issues'']
                                ''cloned_repo'',
                              GetRepo ''token'' ''owner/repo''}) evs =
            [HttpGet ''http://localhost:9000/api/issues/search''
               [(''componentKeys'', ''proj''), (''resolved'', ''false''), (''ps'', ''100'')],
             SubprocessRun [''black'', ''.''] ''cloned_repo'',
             SubprocessRun [''git'', ''checkout'', ''-b'', ''auto-fix-sonar-issues''] ''cloned_repo'',
             GetRepo ''token'' ''owner/repo'']"
  using pipeline_four_steps [of env_down state0]
  by (simp add: env_down_def env_ok_def state0_def get_sonar_issues_def get_sonar_issues_body_def
      apply_code_fixes_def apply_code_fixes_body_def commit_and_push_def commit_and_push_body_def
      raise_pr_def raise_pr_body_def act_defs)

section \<open>watch_github_commit\<close>

text \<open>
  C2, as amended. When the repository and branch lookups return, the marker file exists
  and can be read, and its contents, stripped of surrounding whitespace, equal the head
  commit hash of the branch, \<open>watch_github_commit\<close> returns exactly the dictionary with
  \<open>status\<close> " No new commits" (the text begins with a space) and \<open>latest_commit\<close> the
  head, and the only external calls it makes are the two lookups and the check and read
  of the marker file: no build check, and no step of the pipeline.
\<close>

theorem watch_no_new_commits:
  assumes "watch_get_repo env = None" and "get_branch env branch = Inr head"
    and "marker s = Some contents" and "read_marker env = None" and "strip contents = head"
  shows "watch_github_commit env branch s =
           (PDict [(''status'', PStr '' No new commits''), (''latest_commit'', PStr head)],
            s\<lparr>trace := trace s @
               [GetRepo (GITHUB_TOKEN env) (GITHUB_REPO env), GetBranch branch,
                PathExists ''last_commit.txt'', ReadFile ''last_commit.txt'']\<rparr>)"
  using assms by (simp add: watch_defs act_defs emit_def sha_file_def)

theorem watch_no_new_commits_witness:
  "strip (CHR 0x85 # ''abc123'' @ [CHR 0xA0, CHR 0x0A]) = ''abc123'' \<and>
   watch_github_commit env_ok ''main'' state_padded =
           (PDict [(''status'', PStr '' No new commits''), (''latest_commit'', PStr ''abc123'')],
            \<lparr>marker = Some (CHR 0x85 # ''abc123'' @ [CHR 0xA0, CHR 0x0A]), trace =
               [GetRepo ''token'' ''owner/repo'', GetBranch ''main'',
                PathExists ''last_commit.txt'', ReadFile ''last_commit.txt'']\<rparr>)"
proof -
  have h1: "watch_get_repo env_ok = None" by (simp add: env_ok_def)
  have h2: "get_branch env_ok ''main'' = Inr ''abc123''" by (simp add: env_ok_def)
  have h3: "marker state_padded = Some (CHR 0x85 # ''abc123'' @ [CHR 0xA0, CHR 0x0A])"
    by (simp add: state_padded_def)
  have h4: "read_marker env_ok = None" by (simp add: env_ok_def)
  have h5: "strip (CHR 0x85 # ''abc123'' @ [CHR 0xA0, CHR 0x0A]) = ''abc123''"
    by (simp add: strip_def isspace_def)
  show ?thesis
    using watch_no_new_commits [OF h1 h2 h3 h4 h5] h5
    by (simp add: env_ok_def state_padded_def)
qed

text \<open>
  C2, as stated, fails: with the marker equal to the branch head the returned status is
  not the text "No new commits".
\<close>

theorem watch_status_has_leading_space:
  "marker state_seen = Some ''abc123'' \<and> get_branch env_ok ''main'' = Inr ''abc123'' \<and>
   fst (watch_github_commit env_ok ''main'' state_seen) \<noteq>
     PDict [(''status'', PStr ''No new commits''), (''latest_commit'', PStr ''abc123'')]"
  by (simp add: watch_defs act_defs emit_def sha_file_def env_ok_def state_seen_def
      strip_def isspace_def)

text \<open>
  C3. When a new commit is detected (the lookups return and the marker file is absent, or
  readable with contents that differ from the head after stripping) and the workflow run
  count is read, then: if no run exists, the result is the no-run-found dictionary; if
  the latest run's conclusion is not "success" (a missing conclusion included), the
  result is the build-failed-or-running dictionary with that conclusion. In both cases
  the marker file is what it was before the invocation.
\<close>

theorem watch_build_not_successful:
  assumes "watch_get_repo env = None" and "get_branch env branch = Inr head"
    and "case marker s of None \<Rightarrow> True
         | Some contents \<Rightarrow> read_marker env = None \<and> strip contents \<noteq> head"
    and "runs_totalCount env branch = Inr n"
    and "n \<le> 0 \<or> (runs_first env branch = Inr conclusion \<and> conclusion \<noteq> Some ''success'')"
  shows "marker (snd (watch_github_commit env branch s)) = marker s \<and>
         fst (watch_github_commit env branch s) =
           (if n \<le> 0 then PDict [(''status'', PStr '' No recent workflow run found'')]
            else PDict [(''status'', PStr '' Build failed or still running''),
                        (''build_status'',
                         (case conclusion of None \<Rightarrow> PNone | Some c \<Rightarrow> PStr c))])"
  using assms
  by (auto simp add: watch_defs act_defs emit_def split: option.splits)

theorem watch_build_not_successful_witness:
  "marker (snd (watch_github_commit env_build_failed ''main'' state_old)) =
     Some (''000aaa'' @ [CHR 0x0A]) \<and>
   fst (watch_github_commit env_build_failed ''main'' state_old) =
     PDict [(''status'', PStr '' Build failed or still running''),
            (''build_status'', PStr ''failure'')] \<and>
   marker (snd (watch_github_commit env_no_runs ''main'' state_old)) =
     Some (''000aaa'' @ [CHR 0x0A]) \<and>
   fst (watch_github_commit env_no_runs ''main'' state_old) =
     PDict [(''status'', PStr '' No recent workflow run found'')]"
proof -
  have g1: "watch_get_repo env_no_runs = None"
    by (simp add: env_no_runs_def env_ok_def)
  have g2: "get_branch env_no_runs ''main'' = Inr ''abc123''"
    by (simp add: env_no_runs_def env_ok_def)
  have g3: "case marker state_old of None \<Rightarrow> True
         | Some contents \<Rightarrow> read_marker env_no_runs = None \<and> strip contents \<noteq> ''abc123''"
    by (simp add: state_old_def env_no_runs_def env_ok_def strip_def isspace_def)
  have g4: "runs_totalCount env_no_runs ''main'' = Inr 0"
    by (simp add: env_no_runs_def env_ok_def)
  have g5: "(0::int) \<le> 0 \<or> (runs_first env_no_runs ''main'' = Inr None \<and>
      None \<noteq> Some ''success'')"
    by simp
  have h1: "watch_get_repo env_build_failed = None"
    by (simp add: env_build_failed_def env_ok_def)
  have h2: "get_branch env_build_failed ''main'' = Inr ''abc123''"
    by (simp add: env_build_failed_def env_ok_def)
  have h3: "case marker state_old of None \<Rightarrow> True
         | Some contents \<Rightarrow> read_marker env_build_failed = None \<and> strip contents \<noteq> ''abc123''"
    by (simp add: state_old_def env_build_failed_def env_ok_def strip_def isspace_def)
  have h4: "runs_totalCount env_build_failed ''main'' = Inr 1"
    by (simp add: env_build_failed_def env_ok_def)
  have h5: "(1::int) \<le> 0 \<or> (runs_first env_build_failed ''main'' = Inr (Some ''failure'') \<and>
      Some ''failure'' \<noteq> Some ''success'')"
    by (simp add: env_build_failed_def env_ok_def)
  show ?thesis
    using watch_build_not_successful [OF h1 h2 h3 h4 h5]
      watch_build_not_successful [OF g1 g2 g3 g4 g5]
    by (simp add: state_old_def)
qed

text \<open>
  C8. When the lookups return and the marker file is absent, the result never has the
  status of the no-new-commit result, whatever the head hash is, and the invocation goes
  on to the build check: the workflow runs of the branch are queried right after the
  check for the marker file.
\<close>

theorem watch_marker_absent:
  assumes "watch_get_repo env = None" and "get_branch env branch = Inr head"
    and "marker s = None"
  shows "field (fst (watch_github_commit env branch s)) ''status'' \<noteq> Some (PStr '' No new commits'')
       \<and> (\<exists>rest. trace (snd (watch_github_commit env branch s)) =
             trace s @ [GetRepo (GITHUB_TOKEN env) (GITHUB_REPO env), GetBranch branch,
                        PathExists ''last_commit.txt'', WorkflowRunsTotalCount branch] @ rest)"
  using assms
  by (auto simp add: watch_defs act_defs emit_def sha_file_def field_def pipeline_state
      split_beta split: option.splits sum.splits)

theorem watch_marker_absent_witness:
  "field (fst (watch_github_commit env_build_failed ''dev'' state0)) ''status'' \<noteq>
     Some (PStr '' No new commits'')
   \<and> trace (snd (watch_github_commit env_build_failed ''dev'' state0)) =
       [GetRepo ''token'' ''owner/repo'', GetBranch ''dev'',
        PathExists ''last_commit.txt'', WorkflowRunsTotalCount ''dev'', WorkflowRunsFirst ''dev'']"
proof -
  have h1: "watch_get_repo env_build_failed = None"
    by (simp add: env_build_failed_def env_ok_def)
  have h2: "get_branch env_build_failed ''dev'' = Inr ''abc123''"
    by (simp add: env_build_failed_def env_ok_def)
  have h3: "marker state0 = None" by (simp add: state0_def)
  have tr: "trace (snd (watch_github_commit env_build_failed ''dev'' state0)) =
       [GetRepo ''token'' ''owner/repo'', GetBranch ''dev'',
        PathExists ''last_commit.txt'', WorkflowRunsTotalCount ''dev'', WorkflowRunsFirst ''dev'']"
    by (simp add: watch_defs act_defs emit_def sha_file_def env_build_failed_def env_ok_def
        state0_def)
  show ?thesis
    using watch_marker_absent [OF h1 h2 h3] tr by simp
qed

section \<open>The catch-all\<close>

text \<open>
  C1, as amended. In each of the five operations an exception raised anywhere in the body
  is caught and not raised to the caller (the operations return a value in every case).
  \<open>watch_github_commit\<close>, \<open>get_sonar_issues\<close> and \<open>raise_pr\<close> return the
  dictionary whose only field \<open>error\<close> is the text of the exception;
  \<open>apply_code_fixes\<close> and \<open>commit_and_push\<close> return a string: a fixed failure prefix
  followed by the text of the exception.
\<close>

theorem exceptions_are_caught:
  "(fst (watch_github_commit_body env branch s) = Inl e1 \<longrightarrow>
      fst (watch_github_commit env branch s) = PDict [(''error'', PStr (str_of e1))]) \<and>
   (fst (get_sonar_issues_body env s) = Inl e2 \<longrightarrow>
      fst (get_sonar_issues env s) = PDict [(''error'', PStr (str_of e2))]) \<and>
   (fst (apply_code_fixes_body env s) = Inl e3 \<longrightarrow>
      fst (apply_code_fixes env s) = PStr ('' Failed to apply code fixes: '' @ str_of e3)) \<and>
   (fst (commit_and_push_body env s) = Inl e4 \<longrightarrow>
      fst (commit_and_push env s) = PStr ('' Git commit/push failed: '' @ str_of e4)) \<and>
   (fst (raise_pr_body env s) = Inl e5 \<longrightarrow>
      fst (raise_pr env s) = PDict [(''error'', PStr (str_of e5))])"
  by (simp add: watch_github_commit_def get_sonar_issues_def apply_code_fixes_def
      commit_and_push_def raise_pr_def try_except_def split: prod.splits)

theorem exceptions_are_caught_witness:
  "fst (watch_github_commit_body env_down ''main'' state0) = Inl (Exception ''bad credentials'') \<and>
   fst (watch_github_commit env_down ''main'' state0) = PDict [(''error'', PStr ''bad credentials'')] \<and>
   fst (get_sonar_issues_body env_down state0) = Inl (Exception ''connection refused'') \<and>
   fst (get_sonar_issues env_down state0) = PDict [(''error'', PStr ''connection refused'')] \<and>
   fst (apply_code_fixes_body env_down state0) = Inl (Exception ''boom'') \<and>
   fst (apply_code_fixes env_down state0) = PStr '' Failed to apply code fixes: boom'' \<and>
   fst (commit_and_push_body env_down state0) = Inl (Exception ''boom'') \<and>
   fst (commit_and_push env_down state0) = PStr '' Git commit/push failed: boom'' \<and>
   fst (raise_pr_body env_down state0) = Inl (Exception ''bad credentials'') \<and>
   fst (raise_pr env_down state0) = PDict [(''error'', PStr ''bad credentials'')]"
proof -
  have b1: "fst (watch_github_commit_body env_down ''main'' state0) = Inl (Exception ''bad credentials'')"
    by (simp add: watch_github_commit_body_def act_defs env_down_def env_ok_def)
  have b2: "fst (get_sonar_issues_body env_down state0) = Inl (Exception ''connection refused'')"
    by (simp add: get_sonar_issues_body_def act_defs env_down_def env_ok_def)
  have b3: "fst (apply_code_fixes_body env_down state0) = Inl (Exception ''boom'')"
    by (simp add: apply_code_fixes_body_def act_defs env_down_def env_ok_def)
  have b4: "fst (commit_and_push_body env_down state0) = Inl (Exception ''boom'')"
    by (simp add: commit_and_push_body_def act_defs env_down_def env_ok_def)
  have b5: "fst (raise_pr_body env_down state0) = Inl (Exception ''bad credentials'')"
    by (simp add: raise_pr_body_def act_defs env_down_def env_ok_def)
  show ?thesis
    using exceptions_are_caught [of env_down "''main''" state0 "Exception ''bad credentials''"
        "Exception ''connection refused''" "Exception ''boom''" "Exception ''boom''"
        "Exception ''bad credentials''"] b1 b2 b3 b4 b5
    by simp
qed

text \<open>
  C1, as stated, fails: when \<^verbatim>\<open>black\<close> raises, \<open>apply_code_fixes\<close> returns a string,
  which has no \<open>error\<close> field.
\<close>

theorem apply_code_fixes_error_is_a_string:
  "fst (apply_code_fixes_body env_down state0) = Inl (Exception ''boom'') \<and>
   fst (apply_code_fixes env_down state0) = PStr '' Failed to apply code fixes: boom'' \<and>
   field (fst (apply_code_fixes env_down state0)) ''error'' \<noteq> Some (PStr ''boom'')"
  by (simp add: apply_code_fixes_def apply_code_fixes_body_def act_defs env_down_def env_ok_def
      field_def)

section \<open>The marker and the pipeline\<close>

text \<open>
  C9. When a new commit is detected, the latest workflow run concluded with success and
  the marker file is written without an exception, the pipeline is invoked in a state
  whose marker file already holds the new commit hash (the two calls that write the file
  are the last ones before the pipeline's), and on return the marker file holds that
  hash; nothing is assumed about the pipeline's steps, which may all fail. A following
  invocation that finds the same head (a hexadecimal hash) and can read the file returns
  the no-new-commit result: the commit is not processed again.
\<close>

theorem watch_saves_before_pipeline:
  assumes "watch_get_repo env = None" and "get_branch env branch = Inr head"
    and "case marker s of None \<Rightarrow> True
         | Some contents \<Rightarrow> read_marker env = None \<and> strip contents \<noteq> head"
    and "runs_totalCount env branch = Inr n" and "0 < n"
    and "runs_first env branch = Inr (Some ''success'')"
    and "open_write env = None" and "flush_write env = None"
  shows "(\<exists>s1 pre. marker s1 = Some head \<and>
            trace s1 = trace s @ pre @
              [OpenWrite ''last_commit.txt'', WriteFile ''last_commit.txt'' head] \<and>
            watch_github_commit env branch s =
              (PDict [(''status'', PStr ''Build succeeded and commit processed''),
                      (''commit'', PStr head),
                      (''pipeline_result'', fst (full_auto_fix_pipeline env s1))],
               snd (full_auto_fix_pipeline env s1))) \<and>
         marker (snd (watch_github_commit env branch s)) = Some head \<and>
         (watch_get_repo env2 = None \<and> get_branch env2 branch = Inr head \<and>
          read_marker env2 = None \<and> is_sha head \<longrightarrow>
            fst (watch_github_commit env2 branch (snd (watch_github_commit env branch s))) =
              PDict [(''status'', PStr '' No new commits''), (''latest_commit'', PStr head)])"
proof -
  let ?w = "watch_github_commit env branch s"
  let ?pre = "[GetRepo (GITHUB_TOKEN env) (GITHUB_REPO env), GetBranch branch,
               PathExists sha_file] @
              (if marker s = None then [] else [ReadFile sha_file]) @
              [WorkflowRunsTotalCount branch, WorkflowRunsFirst branch]"
  note ws = watch_success [OF assms]
  define s1 where "s1 = s\<lparr>marker := Some head,
    trace := trace s @ ?pre @ [OpenWrite sha_file, WriteFile sha_file head]\<rparr>"
  have m1: "marker s1 = Some head"
    by (simp add: s1_def)
  have t1: "trace s1 = trace s @ ?pre @
      [OpenWrite ''last_commit.txt'', WriteFile ''last_commit.txt'' head]"
    by (simp add: s1_def sha_file_def)
  have st: "snd ?w = snd (full_auto_fix_pipeline env s1)"
    by (rule state.equality) (simp_all add: pipeline_state ws(2) ws(3) s1_def)
  have res: "fst ?w = PDict [(''status'', PStr ''Build succeeded and commit processed''),
                      (''commit'', PStr head),
                      (''pipeline_result'', fst (full_auto_fix_pipeline env s1))]"
    unfolding ws(1) using pipeline_result [of env s s1] by simp
  have whole: "?w = (PDict [(''status'', PStr ''Build succeeded and commit processed''),
                      (''commit'', PStr head),
                      (''pipeline_result'', fst (full_auto_fix_pipeline env s1))],
               snd (full_auto_fix_pipeline env s1))"
    using res st by (simp add: prod_eq_iff)
  have again: "watch_get_repo env2 = None \<and> get_branch env2 branch = Inr head \<and>
          read_marker env2 = None \<and> is_sha head \<longrightarrow>
            fst (watch_github_commit env2 branch (snd ?w)) =
              PDict [(''status'', PStr '' No new commits''), (''latest_commit'', PStr head)]"
  proof
    assume h: "watch_get_repo env2 = None \<and> get_branch env2 branch = Inr head \<and>
          read_marker env2 = None \<and> is_sha head"
    then have "strip head = head" by (simp add: strip_sha)
    with h ws(2) show "fst (watch_github_commit env2 branch (snd ?w)) =
              PDict [(''status'', PStr '' No new commits''), (''latest_commit'', PStr head)]"
      by (intro watch_same_head [where contents = head]) simp_all
  qed
  from m1 t1 whole ws(2) again show ?thesis by blast
qed

theorem watch_saves_before_pipeline_witness:
  "marker (snd (watch_github_commit env_pipeline_fails ''main'' state_old)) = Some ''abc123'' \<and>
   field (fst (watch_github_commit env_pipeline_fails ''main'' state_old)) ''pipeline_result'' =
     Some (PDict [(''get_sonar_issues'', PDict [(''error'', PStr ''connection refused'')]),
                  (''apply_fixes'', PStr '' Failed to apply code fixes: boom''),
                  (''commit_push'', PStr '' Git commit/push failed: boom''),
                  (''create_pr'', PDict [(''error'', PStr ''bad credentials'')])]) \<and>
   fst (watch_github_commit env_ok ''main''
          (snd (watch_github_commit env_pipeline_fails ''main'' state_old))) =
     PDict [(''status'', PStr '' No new commits''), (''latest_commit'', PStr ''abc123'')]"
proof -
  have h1: "watch_get_repo env_pipeline_fails = None"
    by (simp add: env_pipeline_fails_def env_ok_def)
  have h2: "get_branch env_pipeline_fails ''main'' = Inr ''abc123''"
    by (simp add: env_pipeline_fails_def env_ok_def)
  have h3: "case marker state_old of None \<Rightarrow> True
         | Some contents \<Rightarrow>
             read_marker env_pipeline_fails = None \<and> strip contents \<noteq> ''abc123''"
    by (simp add: state_old_def env_pipeline_fails_def env_ok_def strip_def isspace_def)
  have h4: "runs_totalCount env_pipeline_fails ''main'' = Inr 1"
    by (simp add: env_pipeline_fails_def env_ok_def)
  have h5: "(0::int) < 1" by simp
  have h6: "runs_first env_pipeline_fails ''main'' = Inr (Some ''success'')"
    by (simp add: env_pipeline_fails_def env_ok_def)
  have h7: "open_write env_pipeline_fails = None"
    by (simp add: env_pipeline_fails_def env_ok_def)
  have h8: "flush_write env_pipeline_fails = None"
    by (simp add: env_pipeline_fails_def env_ok_def)
  have h9: "watch_get_repo env_ok = None \<and> get_branch env_ok ''main'' = Inr ''abc123'' \<and>
      read_marker env_ok = None \<and> is_sha ''abc123''"
    by (simp add: env_ok_def is_sha_def hexdigit_def)
  have r: "field (fst (watch_github_commit env_pipeline_fails ''main'' state_old))
      ''pipeline_result'' =
     Some (PDict [(''get_sonar_issues'', PDict [(''error'', PStr ''connection refused'')]),
                  (''apply_fixes'', PStr '' Failed to apply code fixes: boom''),
                  (''commit_push'', PStr '' Git commit/push failed: boom''),
                  (''create_pr'', PDict [(''error'', PStr ''bad credentials'')])])"
    by (simp add: field_def watch_defs act_defs emit_def full_auto_fix_pipeline_def
        get_sonar_issues_def get_sonar_issues_body_def apply_code_fixes_def
        apply_code_fixes_body_def commit_and_push_def commit_and_push_body_def raise_pr_def
        raise_pr_body_def env_pipeline_fails_def env_ok_def state_old_def strip_def isspace_def)
  note th = watch_saves_before_pipeline [OF h1 h2 h3 h4 h5 h6 h7 h8, of env_ok]
  from th have a: "marker (snd (watch_github_commit env_pipeline_fails ''main'' state_old)) =
      Some ''abc123''"
    by (rule conjunct1 [OF conjunct2])
  from th h9 have b: "fst (watch_github_commit env_ok ''main''
          (snd (watch_github_commit env_pipeline_fails ''main'' state_old))) =
     PDict [(''status'', PStr '' No new commits''), (''latest_commit'', PStr ''abc123'')]"
    by (rule mp [OF conjunct2 [OF conjunct2]])
  from a r b show ?thesis by (intro conjI)
qed

section \<open>The branch argument\<close>

text \<open>
  C10. The pipeline does not depend on the branch that is watched: two invocations of
  \<open>watch_github_commit\<close> in the same environment and state that both reach the
  pipeline, for any two branch names, return the same pipeline result, which is the
  result of \<open>full_auto_fix_pipeline\<close> run on its own. Among the external calls of either
  invocation, every \<^verbatim>\<open>git push\<close> pushes the branch "auto-fix-sonar-issues" to
  \<^verbatim>\<open>origin\<close> and every pull request is opened from "auto-fix-sonar-issues" into
  "main", also when the watched branch is not \<^verbatim>\<open>main\<close>.
\<close>

theorem pipeline_ignores_branch:
  assumes "field (fst (watch_github_commit env b1 s)) ''pipeline_result'' = Some r1"
    and "field (fst (watch_github_commit env b2 s)) ''pipeline_result'' = Some r2"
  shows "r1 = r2 \<and> r1 = fst (full_auto_fix_pipeline env s) \<and>
         list_all targets_fixed_branch (new_events s (snd (watch_github_commit env b1 s))) \<and>
         list_all targets_fixed_branch (new_events s (snd (watch_github_commit env b2 s)))"
  using watch_pipeline_result [OF assms(1)] watch_pipeline_result [OF assms(2)]
    watch_events_fixed [of s env b1] watch_events_fixed [of s env b2]
  by simp

theorem pipeline_ignores_branch_witness:
  "field (fst (watch_github_commit env_ok ''main'' state0)) ''pipeline_result'' =
     field (fst (watch_github_commit env_ok ''dev'' state0)) ''pipeline_result'' \<and>
   field (fst (watch_github_commit env_ok ''dev'' state0)) ''pipeline_result'' =
     Some (PDict [(''get_sonar_issues'',
                   PDict [(''status'', PStr ''No issues found''), (''total'', PInt 0),
                          (''issues'', PList [])]),
                  (''apply_fixes'', PStr '' Code formatted using black and isort.''),
                  (''commit_push'', PStr '' Changes pushed to branch `auto-fix-sonar-issues`.''),
                  (''create_pr'',
                   PDict [(''url'', PStr ''https://github.com/owner/repo/pull/1''),
                          (''status'', PStr '' PR created successfully'')])]) \<and>
   list_all targets_fixed_branch (new_events state0 (snd (watch_github_commit env_ok ''dev'' state0))) \<and>
   new_events state0 (snd (watch_github_commit env_ok ''dev'' state0)) =
     [GetRepo ''token'' ''owner/repo'', GetBranch ''dev'', PathExists ''last_commit.txt'',
      WorkflowRunsTotalCount ''dev'', WorkflowRunsFirst ''dev'',
      OpenWrite ''last_commit.txt'', WriteFile ''last_commit.txt'' ''abc123'',
      HttpGet ''http://localhost:9000/api/issues/search''
        [(''componentKeys'', ''proj''), (''resolved'', ''false''), (''ps'', ''100'')],
      SubprocessRun [''black'', ''.''] ''cloned_repo'',
      SubprocessRun [''isort'', ''.''] ''cloned_repo'',
      SubprocessRun [''git'', ''checkout'', ''-b'', ''auto-fix-sonar-issues''] ''cloned_repo'',
      SubprocessRun [''git'', ''add'', ''.''] ''cloned_repo'',
      SubprocessRun [''git'', ''commit'', ''-m'', ''fix: auto-fix based on SonarQube issues'']
        ''cloned_repo'',
      SubprocessRun [''git'', ''push'', ''--set-upstream'', ''origin'', ''auto-fix-sonar-issues'']
        ''cloned_repo'',
      GetRepo ''token'' ''owner/repo'',
      CreatePull ''Auto-fix: SonarQube violations''
        ''This PR auto-fixes code formatting issues based on SonarQube results.''
        ''auto-fix-sonar-issues'' ''main'']"
proof -
  let ?R = "PDict [(''get_sonar_issues'',
                   PDict [(''status'', PStr ''No issues found''), (''total'', PInt 0),
                          (''issues'', PList [])]),
                  (''apply_fixes'', PStr '' Code formatted using black and isort.''),
                  (''commit_push'', PStr '' Changes pushed to branch `auto-fix-sonar-issues`.''),
                  (''create_pr'',
                   PDict [(''url'', PStr ''https://github.com/owner/repo/pull/1''),
                          (''status'', PStr '' PR created successfully'')])]"
  note ops = full_auto_fix_pipeline_def
        get_sonar_issues_def get_sonar_issues_body_def apply_code_fixes_def
        apply_code_fixes_body_def commit_and_push_def commit_and_push_body_def raise_pr_def
        raise_pr_body_def get_default_def truthy_def
  have e1: "field (fst (watch_github_commit env_ok ''main'' state0)) ''pipeline_result'' = Some ?R"
    by (simp add: field_def watch_defs act_defs emit_def ops env_ok_def state0_def NEW_BRANCH_def)
  have e2: "field (fst (watch_github_commit env_ok ''dev'' state0)) ''pipeline_result'' = Some ?R"
    by (simp add: field_def watch_defs act_defs emit_def ops env_ok_def state0_def NEW_BRANCH_def)
  have tr: "new_events state0 (snd (watch_github_commit env_ok ''dev'' state0)) =
     [GetRepo ''token'' ''owner/repo'', GetBranch ''dev'', PathExists ''last_commit.txt'',
      WorkflowRunsTotalCount ''dev'', WorkflowRunsFirst ''dev'',
      OpenWrite ''last_commit.txt'', WriteFile ''last_commit.txt'' ''abc123'',
      HttpGet ''http://localhost:9000/api/issues/search''
        [(''componentKeys'', ''proj''), (''resolved'', ''false''), (''ps'', ''100'')],
      SubprocessRun [''black'', ''.''] ''cloned_repo'',
      SubprocessRun [''isort'', ''.''] ''cloned_repo'',
      SubprocessRun [''git'', ''checkout'', ''-b'', ''auto-fix-sonar-issues''] ''cloned_repo'',
      SubprocessRun [''git'', ''add'', ''.''] ''cloned_repo'',
      SubprocessRun [''git'', ''commit'', ''-m'', ''fix: auto-fix based on SonarQube issues'']
        ''cloned_repo'',
      SubprocessRun [''git'', ''push'', ''--set-upstream'', ''origin'', ''auto-fix-sonar-issues'']
        ''cloned_repo'',
      GetRepo ''token'' ''owner/repo'',
      CreatePull ''Auto-fix: SonarQube violations''
        ''This PR auto-fixes code formatting issues based on SonarQube results.''
        ''auto-fix-sonar-issues'' ''main'']"
    by (simp add: new_events_def watch_defs act_defs emit_def ops env_ok_def state0_def
        NEW_BRANCH_def CLONE_DIR_def sha_file_def)
  note th = pipeline_ignores_branch [OF e1 e2]
  from th have fx: "list_all targets_fixed_branch
      (new_events state0 (snd (watch_github_commit env_ok ''dev'' state0)))"
    by (rule conjunct2 [OF conjunct2 [OF conjunct2]])
  from e1 e2 have same: "field (fst (watch_github_commit env_ok ''main'' state0)) ''pipeline_result'' =
     field (fst (watch_github_commit env_ok ''dev'' state0)) ''pipeline_result''"
    by (rule trans [OF _ sym])
  from same e2 fx tr show ?thesis by (intro conjI)
qed

end
